theory Spec2Isabelle
  imports Main "HOL-Library.Sublist"
begin

section \<open>Python values held in the slot dictionary\<close>

text \<open>
  The slot dictionary of \<^verbatim>\<open>ConversationState\<close> (state_machine.py) holds Python
  values of four kinds: \<^verbatim>\<open>None\<close>, booleans (\<^verbatim>\<open>address_validated\<close>), integers
  (\<^verbatim>\<open>severity\<close>) and strings (everything else). Text is modelled over the ASCII
  repertoire: a \<open>char\<close> with a code of 128 or more is classified as neither a digit,
  a letter nor white space. Floating-point values do not occur in the slot schema.
\<close>

datatype pyval = PNone | PBool bool | PInt int | PStr string

text \<open>Python truthiness, as used by \<^verbatim>\<open>not value\<close> and \<^verbatim>\<open>if value\<close>.\<close>

fun truthy :: "pyval \<Rightarrow> bool" where
  "truthy PNone = False"
| "truthy (PBool b) = b"
| "truthy (PInt i) = (i \<noteq> 0)"
| "truthy (PStr s) = (s \<noteq> [])"

text \<open>Python \<^verbatim>\<open>==\<close>: a boolean is the integer 0 or 1; values of different kinds differ.\<close>

fun py_eq :: "pyval \<Rightarrow> pyval \<Rightarrow> bool" where
  "py_eq PNone PNone = True"
| "py_eq (PBool a) (PBool b) = (a = b)"
| "py_eq (PBool a) (PInt j) = ((if a then 1 else 0) = j)"
| "py_eq (PInt i) (PBool b) = (i = (if b then 1 else 0))"
| "py_eq (PInt i) (PInt j) = (i = j)"
| "py_eq (PStr s) (PStr t) = (s = t)"
| "py_eq _ _ = False"

definition digit_char :: "nat \<Rightarrow> char" where
  "digit_char n = ''0123456789'' ! (n mod 10)"

function string_of_nat :: "nat \<Rightarrow> string" where
  "string_of_nat n =
     (if n < 10 then [digit_char n] else string_of_nat (n div 10) @ [digit_char n])"
  by pat_completeness auto
termination
  by (relation "measure (\<lambda>n. n)") auto

text \<open>Python \<^verbatim>\<open>str(value)\<close>.\<close>

fun py_str :: "pyval \<Rightarrow> string" where
  "py_str PNone = ''None''"
| "py_str (PBool b) = (if b then ''True'' else ''False'')"
| "py_str (PInt i) = (if i < 0 then CHR ''-'' # string_of_nat (nat (- i)) else string_of_nat (nat i))"
| "py_str (PStr s) = s"

section \<open>Character classes and the string methods the code calls\<close>

definition is_digit :: "char \<Rightarrow> bool" where
  "is_digit c = (c \<in> set ''0123456789'')"

text \<open>\<^verbatim>\<open>str.isdigit()\<close>: at least one character, all of them digits.\<close>

definition isdigit :: "string \<Rightarrow> bool" where
  "isdigit s = (s \<noteq> [] \<and> list_all is_digit s)"

text \<open>\<^verbatim>\<open>s.replace(c, "")\<close> for a one-character \<^verbatim>\<open>c\<close>: every occurrence is removed.\<close>

definition remove_char :: "char \<Rightarrow> string \<Rightarrow> string" where
  "remove_char c s = filter (\<lambda>x. x \<noteq> c) s"

text \<open>
  \<^verbatim>\<open>re.match(r"^\d{4}-\d{2}-\d{2}$", s)\<close>. In Python \<^verbatim>\<open>$\<close> also matches just before
  a newline that ends the string.
\<close>

definition dob_shape :: "string \<Rightarrow> bool" where
  "dob_shape s =
     (case s of
        [y1, y2, y3, y4, h1, m1, m2, h2, d1, d2] \<Rightarrow>
          list_all is_digit [y1, y2, y3, y4, m1, m2, d1, d2] \<and> h1 = CHR ''-'' \<and> h2 = CHR ''-''
      | _ \<Rightarrow> False)"

definition match_dob :: "string \<Rightarrow> bool" where
  "match_dob s =
     (dob_shape s \<or> (s \<noteq> [] \<and> last s = CHR 0x0A \<and> dob_shape (butlast s)))"

section \<open>Phases and the requirement table\<close>

datatype State =
    GREET | CHECK_PATIENT | VERIFY_DOB | CONFIRM_RETURNING
  | COLLECT_PATIENT | CONFIRM_PATIENT | COLLECT_INSURANCE | CONFIRM_INSURANCE
  | COLLECT_ADDRESS | VALIDATE_ADDRESS | CONFIRM_ADDRESS | COLLECT_MEDICAL
  | QUERY_PROVIDERS | SELECT_PROVIDER | SELECT_TIME | CONFIRM | END

text \<open>\<^verbatim>\<open>PHASE_REQUIREMENTS\<close>: a dictionary with four keys.\<close>

fun PHASE_REQUIREMENTS :: "State \<Rightarrow> string list option" where
  "PHASE_REQUIREMENTS COLLECT_PATIENT =
     Some [''first_name'', ''last_name'', ''date_of_birth'', ''phone'']"
| "PHASE_REQUIREMENTS COLLECT_INSURANCE = Some [''insurance_payer'', ''insurance_member_id'']"
| "PHASE_REQUIREMENTS COLLECT_ADDRESS = Some [''address_line1'', ''city'', ''state'', ''zip_code'']"
| "PHASE_REQUIREMENTS COLLECT_MEDICAL = Some [''chief_complaint'']"
| "PHASE_REQUIREMENTS _ = None"

section \<open>The conversation state\<close>

record Patient =
  p_id :: string
  p_first_name :: string
  p_last_name :: string
  p_date_of_birth :: string
  p_phone :: string
  p_email :: "string option"
  p_address_line1 :: "string option"
  p_address_line2 :: "string option"
  p_city :: "string option"
  p_state :: "string option"
  p_zip_code :: "string option"
  p_address_validated :: bool
  p_insurance_payer :: "string option"
  p_insurance_plan :: "string option"
  p_insurance_member_id :: "string option"
  p_insurance_group_id :: "string option"

text \<open>
  The entries of \<^verbatim>\<open>matched_providers\<close> and \<^verbatim>\<open>available_slots\<close> are the
  dictionaries built in \<^verbatim>\<open>handle_query_providers\<close> and \<^verbatim>\<open>handle_select_provider\<close>.
  A provider's rating is only carried along; it is kept as an integer number of
  hundredths.
\<close>

record provider_entry =
  pe_id :: string
  pe_name :: string
  pe_specialty :: "string option"
  pe_rating :: int

record slot_entry =
  se_id :: string
  se_date :: string
  se_time :: string

type_synonym slot_dict = "string \<rightharpoonup> pyval"

record ConversationState =
  current_state :: State
  patient_id :: "string option"
  is_returning :: bool
  slots :: slot_dict
  address_validation_attempts :: int
  pending_address_suggestion :: "string option"
  pending_name_matches :: "Patient list"
  matched_providers :: "provider_entry list"
  selected_provider_id :: "string option"
  selected_provider_name :: "string option"
  available_slots :: "slot_entry list"
  selected_appointment_id :: "string option"
  selected_date :: "string option"
  selected_time :: "string option"
  messages :: "string list"

text \<open>The default factory of \<^verbatim>\<open>slots\<close>, key by key.\<close>

definition default_slots :: "(string \<times> pyval) list" where
  "default_slots =
     [(''first_name'', PNone), (''last_name'', PNone), (''date_of_birth'', PNone),
      (''phone'', PNone), (''email'', PNone),
      (''address_line1'', PNone), (''address_line2'', PNone), (''city'', PNone),
      (''state'', PNone), (''zip_code'', PNone), (''address_validated'', PBool False),
      (''insurance_payer'', PNone), (''insurance_plan'', PNone),
      (''insurance_member_id'', PNone), (''insurance_group_id'', PNone),
      (''chief_complaint'', PNone), (''symptoms'', PNone), (''symptom_duration'', PNone),
      (''severity'', PNone)]"

text \<open>\<^verbatim>\<open>ConversationState()\<close>: every field at its dataclass default.\<close>

definition initial_state :: ConversationState where
  "initial_state =
     \<lparr> current_state = GREET, patient_id = None, is_returning = False,
       slots = map_of default_slots, address_validation_attempts = 0,
       pending_address_suggestion = None, pending_name_matches = [],
       matched_providers = [], selected_provider_id = None, selected_provider_name = None,
       available_slots = [], selected_appointment_id = None, selected_date = None,
       selected_time = None, messages = [] \<rparr>"

text \<open>\<^verbatim>\<open>self.slots.get(slot)\<close>: \<^verbatim>\<open>None\<close> for a key the dictionary lacks.\<close>

definition slot_get :: "slot_dict \<Rightarrow> string \<Rightarrow> pyval" where
  "slot_get d k = (case d k of None \<Rightarrow> PNone | Some v \<Rightarrow> v)"

section \<open>Completion check\<close>

text \<open>\<^verbatim>\<open>ConversationState._is_valid_slot\<close>.\<close>

definition is_valid_slot :: "string \<Rightarrow> pyval \<Rightarrow> bool" where
  "is_valid_slot slot v =
     (if \<not> truthy v then False
      else if slot = ''phone'' then
        (let digits = py_str v
         in length digits > 0 \<and> isdigit (remove_char CHR '' '' (remove_char CHR ''-'' digits)))
      else if slot = ''date_of_birth'' then match_dob (py_str v)
      else if slot = ''zip_code'' then isdigit (py_str v)
      else True)"

text \<open>The loop of \<^verbatim>\<open>get_missing_slots\<close> over the required names, appending in order.\<close>

fun missing_loop :: "slot_dict \<Rightarrow> string list \<Rightarrow> string list" where
  "missing_loop d [] = []"
| "missing_loop d (slot # rest) =
     (let v = slot_get d slot
      in if \<not> truthy v \<or> \<not> is_valid_slot slot v then slot # missing_loop d rest
         else missing_loop d rest)"

definition get_missing_slots :: "ConversationState \<Rightarrow> State \<Rightarrow> string list" where
  "get_missing_slots st phase =
     (case PHASE_REQUIREMENTS phase of
        None \<Rightarrow> []
      | Some req \<Rightarrow> missing_loop (slots st) req)"

definition is_phase_complete :: "ConversationState \<Rightarrow> State \<Rightarrow> bool" where
  "is_phase_complete st phase = (length (get_missing_slots st phase) = 0)"

section \<open>Merge\<close>

text \<open>
  \<^verbatim>\<open>merge_slots\<close> walks \<^verbatim>\<open>extracted.items()\<close>. The payload is a Python dictionary:
  an association list in insertion order whose keys are pairwise different. The loop
  returns the changed keys in the order visited together with the updated dictionary.
\<close>

fun merge_loop :: "slot_dict \<Rightarrow> (string \<times> pyval) list \<Rightarrow> string list \<times> slot_dict" where
  "merge_loop d [] = ([], d)"
| "merge_loop d ((key, v) # rest) =
     (if v \<noteq> PNone \<and> d key \<noteq> None then
        (if \<not> py_eq (slot_get d key) v then
           (let (changed, d') = merge_loop (d(key \<mapsto> v)) rest in (key # changed, d'))
         else merge_loop d rest)
      else merge_loop d rest)"

definition merge_slots ::
  "ConversationState \<Rightarrow> (string \<times> pyval) list \<Rightarrow> string list \<times> ConversationState" where
  "merge_slots st extracted =
     (let (changed, d') = merge_loop (slots st) extracted in (changed, st\<lparr>slots := d'\<rparr>))"

section \<open>Text helpers\<close>

definition is_space :: "char \<Rightarrow> bool" where
  "is_space c = (c \<in> set [CHR 0x09, CHR 0x0A, CHR 0x0B, CHR 0x0C, CHR 0x0D,
                             CHR 0x1C, CHR 0x1D, CHR 0x1E, CHR 0x1F, CHR '' ''])"

definition is_upper :: "char \<Rightarrow> bool" where
  "is_upper c = (c \<in> set ''ABCDEFGHIJKLMNOPQRSTUVWXYZ'')"

definition is_lower :: "char \<Rightarrow> bool" where
  "is_lower c = (c \<in> set ''abcdefghijklmnopqrstuvwxyz'')"

definition to_lower :: "char \<Rightarrow> char" where
  "to_lower c =
     (case map_of (zip ''ABCDEFGHIJKLMNOPQRSTUVWXYZ'' ''abcdefghijklmnopqrstuvwxyz'') c of
        None \<Rightarrow> c
      | Some l \<Rightarrow> l)"

definition to_upper :: "char \<Rightarrow> char" where
  "to_upper c =
     (case map_of (zip ''abcdefghijklmnopqrstuvwxyz'' ''ABCDEFGHIJKLMNOPQRSTUVWXYZ'') c of
        None \<Rightarrow> c
      | Some u \<Rightarrow> u)"

definition lower :: "string \<Rightarrow> string" where
  "lower s = map to_lower s"

definition upper :: "string \<Rightarrow> string" where
  "upper s = map to_upper s"

text \<open>\<^verbatim>\<open>str.isalpha()\<close>: at least one character, all of them letters.\<close>

definition isalpha :: "string \<Rightarrow> bool" where
  "isalpha s = (s \<noteq> [] \<and> list_all (\<lambda>c. is_upper c \<or> is_lower c) s)"

text \<open>\<^verbatim>\<open>str.strip()\<close>.\<close>

definition strip :: "string \<Rightarrow> string" where
  "strip s = rev (dropWhile is_space (rev (dropWhile is_space s)))"

text \<open>\<^verbatim>\<open>s.split(sep)\<close> for a one-character separator; \<open>cur\<close> is the piece being read.\<close>

fun split_acc :: "char \<Rightarrow> string \<Rightarrow> string \<Rightarrow> string list" where
  "split_acc sep cur [] = [cur]"
| "split_acc sep cur (c # cs) =
     (if c = sep then cur # split_acc sep [] cs else split_acc sep (cur @ [c]) cs)"

definition split_on :: "char \<Rightarrow> string \<Rightarrow> string list" where
  "split_on sep s = split_acc sep [] s"

text \<open>\<^verbatim>\<open>s.split()\<close>: pieces between runs of white space, none of them empty.\<close>

fun words_acc :: "string \<Rightarrow> string \<Rightarrow> string list" where
  "words_acc cur [] = (if cur = [] then [] else [cur])"
| "words_acc cur (c # cs) =
     (if is_space c then (if cur = [] then words_acc [] cs else cur # words_acc [] cs)
      else words_acc (cur @ [c]) cs)"

definition split_ws :: "string \<Rightarrow> string list" where
  "split_ws s = words_acc [] s"

text \<open>\<^verbatim>\<open>int(s)\<close> on a run of decimal digits.\<close>

definition digit_value :: "char \<Rightarrow> nat" where
  "digit_value c = of_char c - 48"

definition int_of_digits :: "string \<Rightarrow> int" where
  "int_of_digits s = int (foldl (\<lambda>n c. 10 * n + digit_value c) 0 s)"

section \<open>Phone normalisation\<close>

text \<open>
  \<^verbatim>\<open>ExtractedSlots.normalize_phone\<close> (slot_extractor.py). \<^verbatim>\<open>re.sub(r"\D", "", v)\<close>
  keeps the digits of \<^verbatim>\<open>v\<close> in order.
\<close>

definition normalize_phone :: "string option \<Rightarrow> string option" where
  "normalize_phone v =
     (case v of
        None \<Rightarrow> None
      | Some s \<Rightarrow>
          if s = [] then None
          else (let digits = filter is_digit s
                in if digits = [] then None
                   else if length digits = 11 \<and> take 1 digits = ''1'' then Some (drop 1 digits)
                   else Some digits))"

section \<open>Reverse parsing of a suggested address\<close>

text \<open>
  \<^verbatim>\<open>re.sub(r",?\s*(USA|US|United States)$", "", s, flags=re.IGNORECASE)\<close> on a
  stripped string: the match has to reach the end of the string, so the substitution
  cuts the string at the leftmost position from which the rest is an optional comma,
  white space and one of the three country names in any letter case.
\<close>

definition country_suffix :: "string \<Rightarrow> bool" where
  "country_suffix t =
     (let t1 = (case t of c # cs \<Rightarrow> if c = CHR '','' then cs else t | [] \<Rightarrow> t);
          t2 = dropWhile is_space t1
      in lower t2 \<in> set [''usa'', ''us'', ''united states''])"

fun strip_country :: "string \<Rightarrow> string" where
  "strip_country [] = []"
| "strip_country (c # cs) = (if country_suffix (c # cs) then [] else c # strip_country cs)"

text \<open>
  \<^verbatim>\<open>re.match(r"^([A-Z]{2})\s+(\d{5})(?:-\d{4})?$", s)\<close> on a stripped string: the two
  groups when it matches.
\<close>

definition match_state_zip :: "string \<Rightarrow> (string \<times> string) option" where
  "match_state_zip s =
     (case s of
        a # b # rest \<Rightarrow>
          (let r = dropWhile is_space rest
           in if is_upper a \<and> is_upper b \<and> rest \<noteq> [] \<and> is_space (hd rest) \<and>
                 length (take 5 r) = 5 \<and> list_all is_digit (take 5 r) \<and>
                 (drop 5 r = [] \<or>
                  (length (drop 5 r) = 5 \<and> hd (drop 5 r) = CHR ''-'' \<and>
                   list_all is_digit (drop 6 r)))
              then Some ([a, b], take 5 r) else None)
      | _ \<Rightarrow> None)"

text \<open>
  \<^verbatim>\<open>parse_suggested_address\<close> (main.py). The result dictionary is an association list
  in insertion order.
\<close>

definition parse_suggested_address :: "string \<Rightarrow> (string \<times> pyval) list option" where
  "parse_suggested_address suggested0 =
     (let suggested = strip_country (strip suggested0);
          parts = map strip (split_on CHR '','' suggested)
      in if length parts < 3 then None
         else
           (let result = [(''address_line1'', PStr (parts ! 0)), (''city'', PStr (parts ! 1))];
                state_zip = strip (parts ! 2);
                result' =
                  (case match_state_zip state_zip of
                     Some (g1, g2) \<Rightarrow> result @ [(''state'', PStr g1), (''zip_code'', PStr g2)]
                   | None \<Rightarrow>
                       if length state_zip = 2 \<and> isalpha state_zip
                       then result @ [(''state'', PStr (upper state_zip))]
                       else result)
            in if ''state'' \<in> fst ` set result' then Some result' else None))"

section \<open>The appointments table and booking\<close>

text \<open>
  A row of the \<^verbatim>\<open>appointments\<close> table (schema.py); a nullable column is an option.
  The table is the list of its rows.
\<close>

record Appointment =
  a_id :: string
  a_provider_id :: string
  a_date :: string
  a_time :: string
  a_status :: "string option"
  a_patient_id :: "string option"
  a_visit_id :: "string option"
  a_reason :: "string option"
  a_notes :: "string option"
  a_booked_at :: "string option"

text \<open>\<^verbatim>\<open>get_appointment_by_id\<close>: \<^verbatim>\<open>fetchone()\<close> of the rows with that id.\<close>

definition get_appointment_by_id :: "Appointment list \<Rightarrow> string \<Rightarrow> Appointment option" where
  "get_appointment_by_id tbl appointment_id = find (\<lambda>r. a_id r = appointment_id) tbl"

text \<open>The \<^verbatim>\<open>WHERE\<close> clause of the update in \<^verbatim>\<open>book_appointment\<close>.\<close>

definition bookable :: "string \<Rightarrow> Appointment \<Rightarrow> bool" where
  "bookable appointment_id r =
     (a_id r = appointment_id \<and> a_patient_id r = None \<and> a_status r = Some ''available'')"

text \<open>
  The database as far as booking reads it: the ids of the rows of \<^verbatim>\<open>patients\<close> and
  of \<^verbatim>\<open>visits\<close>, and the \<^verbatim>\<open>appointments\<close> table. Every connection runs
  \<^verbatim>\<open>PRAGMA foreign_keys = ON\<close> (connection.py), and \<^verbatim>\<open>appointments.patient_id\<close> and
  \<^verbatim>\<open>appointments.visit_id\<close> reference those two tables (schema.py).
\<close>

record database =
  patient_ids :: "string list"
  visit_ids :: "string list"
  appointments :: "Appointment list"

datatype db_error = IntegrityError

text \<open>
  The foreign keys of a row that the update writes: the patient exists, and so does the
  visit unless it is \<^verbatim>\<open>NULL\<close>.
\<close>

definition references_exist :: "database \<Rightarrow> string \<Rightarrow> string option \<Rightarrow> bool" where
  "references_exist db pid visit_id =
     (pid \<in> set (patient_ids db) \<and>
      (case visit_id of None \<Rightarrow> True | Some v \<Rightarrow> v \<in> set (visit_ids db)))"

text \<open>
  \<^verbatim>\<open>ProviderRepository.book_appointment\<close>: one \<^verbatim>\<open>UPDATE\<close>. When it writes a row
  whose new patient or visit id has no parent row, \<^verbatim>\<open>execute\<close> raises
  \<^verbatim>\<open>sqlite3.IntegrityError\<close> and nothing is stored. Otherwise the result is \<^verbatim>\<open>None\<close>
  when \<^verbatim>\<open>rowcount\<close> is 0, and the row read back when it is not. The clock value
  \<^verbatim>\<open>now\<close> is a parameter. A normal result is the returned value together with the
  database afterwards.
\<close>

definition book_appointment ::
  "database \<Rightarrow> string \<Rightarrow> string \<Rightarrow> string option \<Rightarrow> string option \<Rightarrow> string \<Rightarrow>
   db_error + (Appointment option \<times> database)" where
  "book_appointment db appointment_id pid visit_id reason now =
     (let tbl = appointments db;
          rowcount = length (filter (bookable appointment_id) tbl);
          tbl' = map (\<lambda>r. if bookable appointment_id r
                           then r\<lparr>a_patient_id := Some pid, a_visit_id := visit_id,
                                  a_status := Some ''booked'', a_reason := reason,
                                  a_booked_at := Some now\<rparr>
                           else r) tbl
      in if rowcount \<noteq> 0 \<and> \<not> references_exist db pid visit_id then Inl IntegrityError
         else if rowcount = 0 then Inr (None, db)
         else Inr (get_appointment_by_id tbl' appointment_id, db\<lparr>appointments := tbl'\<rparr>))"

section \<open>The transition function\<close>

text \<open>Truthiness of an optional string field (\<^verbatim>\<open>str | None\<close>).\<close>

definition opt_truthy :: "string option \<Rightarrow> bool" where
  "opt_truthy v = (case v of None \<Rightarrow> False | Some s \<Rightarrow> s \<noteq> [])"

text \<open>\<^verbatim>\<open>get_next_state\<close> (state_machine.py), branch by branch.\<close>

definition get_next_state :: "ConversationState \<Rightarrow> State" where
  "get_next_state st =
     (let current = current_state st
      in if current = GREET then CHECK_PATIENT
         else if current = CHECK_PATIENT then
           (if is_returning st then CONFIRM_RETURNING else COLLECT_PATIENT)
         else if current = CONFIRM_RETURNING then COLLECT_MEDICAL
         else if current = COLLECT_PATIENT then
           (if is_phase_complete st COLLECT_PATIENT then CONFIRM_PATIENT else COLLECT_PATIENT)
         else if current = CONFIRM_PATIENT then COLLECT_INSURANCE
         else if current = COLLECT_INSURANCE then
           (if is_phase_complete st COLLECT_INSURANCE then CONFIRM_INSURANCE
            else COLLECT_INSURANCE)
         else if current = CONFIRM_INSURANCE then COLLECT_ADDRESS
         else if current = COLLECT_ADDRESS then
           (if is_phase_complete st COLLECT_ADDRESS then VALIDATE_ADDRESS else COLLECT_ADDRESS)
         else if current = VALIDATE_ADDRESS then
           (if slot_get (slots st) ''address_validated'' \<noteq> PNone then CONFIRM_ADDRESS
            else COLLECT_ADDRESS)
         else if current = CONFIRM_ADDRESS then COLLECT_MEDICAL
         else if current = COLLECT_MEDICAL then
           (if is_phase_complete st COLLECT_MEDICAL then QUERY_PROVIDERS else COLLECT_MEDICAL)
         else if current = QUERY_PROVIDERS then
           (if matched_providers st \<noteq> [] then SELECT_PROVIDER else QUERY_PROVIDERS)
         else if current = SELECT_PROVIDER then
           (if opt_truthy (selected_provider_id st) then SELECT_TIME else SELECT_PROVIDER)
         else if current = SELECT_TIME then
           (if opt_truthy (selected_appointment_id st) then CONFIRM else SELECT_TIME)
         else if current = CONFIRM then END
         else END)"

section \<open>External collaborators\<close>

text \<open>
  The language model, the address service and the database are outside the program.
  What they return during one turn is a parameter of the handlers: a record of
  functions from the arguments the code passes to the value it gets back. Every
  external call is modelled as returning. The reply text of a handler is produced by
  the language model from the state and never feeds back into the state, so a handler
  is modelled by the state it leaves behind.
\<close>

record UserIntent =
  is_affirmative :: bool
  is_negative :: bool
  wants_to_update :: bool
  field_to_update :: "string option"
  is_greeting :: bool

record AddressValidationResult =
  is_valid :: bool
  input_address :: string
  suggested_address :: "string option"
  corrected_components :: "(string \<times> pyval) list option"

text \<open>The fields of a \<^verbatim>\<open>Provider\<close> that the dispatcher reads.\<close>

record Provider =
  pr_id :: string
  pr_name :: string
  pr_specialty :: "string option"
  pr_rating :: int

record env =
  extract_slots :: "string \<Rightarrow> (string \<times> pyval) list"
  classify_intent :: "string \<Rightarrow> UserIntent"
  validate_address :: "pyval \<Rightarrow> pyval \<Rightarrow> pyval \<Rightarrow> pyval \<Rightarrow> pyval \<Rightarrow> AddressValidationResult"
  find_existing_patient :: "pyval \<Rightarrow> pyval \<Rightarrow> pyval \<Rightarrow> pyval \<Rightarrow> pyval \<Rightarrow> Patient option"
  find_patients_by_name :: "pyval \<Rightarrow> pyval \<Rightarrow> Patient list"
  find_providers :: "pyval \<Rightarrow> pyval \<Rightarrow> Provider list"
  get_available_slots :: "string \<Rightarrow> Appointment list"
  selection_reply :: "string \<Rightarrow> string"

text \<open>
  \<^verbatim>\<open>extract_slots env u\<close> stands for
  \<^verbatim>\<open>extract_slots(u).model_dump(exclude_none=True)\<close>, \<^verbatim>\<open>validate_address env\<close>
  takes line 1, city, state, ZIP code and line 2, \<^verbatim>\<open>find_existing_patient env\<close> takes
  phone, email, first name, last name and date of birth, \<^verbatim>\<open>find_providers env\<close>
  takes the insurance and the condition (the limit is always 5), and
  \<^verbatim>\<open>selection_reply env u\<close> is the text the language model answers inside
  \<^verbatim>\<open>interpret_selection\<close>.
\<close>

section \<open>Selection interpretation\<close>

text \<open>\<^verbatim>\<open>re.findall(r'\d+', result)[0]\<close> when there is one: the first run of digits.\<close>

definition first_number :: "string \<Rightarrow> string" where
  "first_number s = takeWhile is_digit (dropWhile (\<lambda>c. \<not> is_digit c) s)"

text \<open>
  \<^verbatim>\<open>interpret_selection\<close> (conversation.py), from the reply of the language model and
  the option list.
\<close>

definition interpret_selection :: "string \<Rightarrow> 'a list \<Rightarrow> int option" where
  "interpret_selection reply options =
     (if options = [] then None
      else (let numbers0 = first_number (strip reply)
            in if numbers0 \<noteq> [] then
                 (let selection = int_of_digits numbers0
                  in if 1 \<le> selection \<and> selection \<le> int (length options)
                     then Some (selection - 1)
                     else None)
               else None))"

section \<open>Turn handlers\<close>

text \<open>\<^verbatim>\<open>dict.update\<close> with the pairs of another dictionary.\<close>

definition dict_update :: "slot_dict \<Rightarrow> (string \<times> pyval) list \<Rightarrow> slot_dict" where
  "dict_update d kvs = fold (\<lambda>(k, v) m. m(k \<mapsto> v)) kvs d"

definition opt_val :: "string option \<Rightarrow> pyval" where
  "opt_val v = (case v of None \<Rightarrow> PNone | Some s \<Rightarrow> PStr s)"

text \<open>\<^verbatim>\<open>"word" in user_input.lower().split()\<close>.\<close>

definition says :: "string \<Rightarrow> string \<Rightarrow> bool" where
  "says word user_input = (word \<in> set (split_ws (lower user_input)))"

definition handle_greet :: "env \<Rightarrow> ConversationState \<Rightarrow> string \<Rightarrow> ConversationState" where
  "handle_greet e st user_input = st\<lparr>current_state := CHECK_PATIENT\<rparr>"

definition set_returning_patient :: "ConversationState \<Rightarrow> Patient \<Rightarrow> ConversationState" where
  "set_returning_patient st patient =
     st\<lparr>is_returning := True,
        patient_id := Some (p_id patient),
        slots := dict_update (slots st)
          [(''first_name'', PStr (p_first_name patient)),
           (''last_name'', PStr (p_last_name patient)),
           (''date_of_birth'', PStr (p_date_of_birth patient)),
           (''phone'', PStr (p_phone patient)),
           (''email'', opt_val (p_email patient)),
           (''address_line1'', opt_val (p_address_line1 patient)),
           (''address_line2'', opt_val (p_address_line2 patient)),
           (''city'', opt_val (p_city patient)),
           (''state'', opt_val (p_state patient)),
           (''zip_code'', opt_val (p_zip_code patient)),
           (''address_validated'', PBool (p_address_validated patient)),
           (''insurance_payer'', opt_val (p_insurance_payer patient)),
           (''insurance_plan'', opt_val (p_insurance_plan patient)),
           (''insurance_member_id'', opt_val (p_insurance_member_id patient)),
           (''insurance_group_id'', opt_val (p_insurance_group_id patient))],
        current_state := CONFIRM_RETURNING\<rparr>"

definition handle_check_patient :: "env \<Rightarrow> ConversationState \<Rightarrow> string \<Rightarrow> ConversationState" where
  "handle_check_patient e st0 user_input =
     (let st = snd (merge_slots st0 (extract_slots e user_input));
          d = slots st
      in case find_existing_patient e (slot_get d ''phone'') (slot_get d ''email'')
                (slot_get d ''first_name'') (slot_get d ''last_name'')
                (slot_get d ''date_of_birth'') of
           Some patient \<Rightarrow> set_returning_patient st patient
         | None \<Rightarrow>
             (let first_name = slot_get d ''first_name'';
                  last_name = slot_get d ''last_name''
              in if truthy first_name \<and> truthy last_name \<and>
                    \<not> truthy (slot_get d ''date_of_birth'') \<and>
                    find_patients_by_name e first_name last_name \<noteq> []
                 then st\<lparr>pending_name_matches := find_patients_by_name e first_name last_name,
                         current_state := VERIFY_DOB\<rparr>
                 else if is_negative (classify_intent e user_input) \<or> says ''no'' user_input
                 then st\<lparr>current_state := COLLECT_PATIENT\<rparr>
                 else if truthy (slot_get d ''phone'') \<or> truthy (slot_get d ''first_name'')
                 then st\<lparr>current_state := COLLECT_PATIENT\<rparr>
                 else st))"

definition handle_verify_dob :: "env \<Rightarrow> ConversationState \<Rightarrow> string \<Rightarrow> ConversationState" where
  "handle_verify_dob e st0 user_input =
     (let st = snd (merge_slots st0 (extract_slots e user_input));
          dob = slot_get (slots st) ''date_of_birth''
      in if \<not> truthy dob then st
         else (case find (\<lambda>patient. py_eq (PStr (p_date_of_birth patient)) dob)
                      (pending_name_matches st) of
                 Some patient \<Rightarrow> set_returning_patient (st\<lparr>pending_name_matches := []\<rparr>) patient
               | None \<Rightarrow> st\<lparr>pending_name_matches := [], current_state := COLLECT_PATIENT\<rparr>))"

text \<open>
  \<^verbatim>\<open>do_address_validation\<close>. Its second argument \<^verbatim>\<open>newly_filled\<close> only shapes the
  acknowledgement text and is left out. The four subscripts \<^verbatim>\<open>state.slots["..."]\<close>
  read keys that the default factory creates and that no code path removes; their
  values only go to the validator.
\<close>

definition do_address_validation :: "env \<Rightarrow> ConversationState \<Rightarrow> ConversationState" where
  "do_address_validation e st0 =
     (let st = st0\<lparr>address_validation_attempts := address_validation_attempts st0 + 1\<rparr>;
          d = slots st;
          result = validate_address e (slot_get d ''address_line1'') (slot_get d ''city'')
                     (slot_get d ''state'') (slot_get d ''zip_code'')
                     (slot_get d ''address_line2'')
      in if is_valid result then
           (let d1 = d(''address_validated'' \<mapsto> PBool True);
                d2 = (case corrected_components result of
                        None \<Rightarrow> d1
                      | Some cc \<Rightarrow> if cc \<noteq> [] then dict_update d1 cc else d1)
            in st\<lparr>slots := d2, current_state := CONFIRM_ADDRESS\<rparr>)
         else if address_validation_attempts st \<ge> 2 then
           st\<lparr>slots := d(''address_validated'' \<mapsto> PBool False), current_state := CONFIRM_ADDRESS\<rparr>
         else
           st\<lparr>pending_address_suggestion := suggested_address result,
              current_state := VALIDATE_ADDRESS\<rparr>)"

definition address_fields :: "string list" where
  "address_fields = [''address_line1'', ''city'', ''state'', ''zip_code'']"

definition handle_confirm_returning :: "env \<Rightarrow> ConversationState \<Rightarrow> string \<Rightarrow> ConversationState" where
  "handle_confirm_returning e st0 user_input =
     (let intent = classify_intent e user_input;
          (newly_filled, st1) = merge_slots st0 (extract_slots e user_input);
          address_changed = (set address_fields \<inter> set newly_filled \<noteq> {});
          st = (if address_changed
                then st1\<lparr>slots := (slots st1)(''address_validated'' \<mapsto> PNone),
                         address_validation_attempts := 0\<rparr>
                else st1)
      in if wants_to_update intent \<or> is_negative intent then
           (if newly_filled \<noteq> [] then
              (if address_changed \<and> is_phase_complete st COLLECT_ADDRESS
               then do_address_validation e st else st)
            else st)
         else if is_affirmative intent then st\<lparr>current_state := COLLECT_MEDICAL\<rparr>
         else if newly_filled \<noteq> [] then
           (if address_changed \<and> is_phase_complete st COLLECT_ADDRESS
            then do_address_validation e st else st)
         else st)"

definition handle_query_providers :: "env \<Rightarrow> ConversationState \<Rightarrow> string \<Rightarrow> ConversationState" where
  "handle_query_providers e st user_input =
     (let insurance = slot_get (slots st) ''insurance_payer'';
          providers1 = find_providers e insurance (slot_get (slots st) ''chief_complaint'');
          providers2 = (if providers1 = [] then find_providers e insurance PNone else providers1);
          providers = (if providers2 = [] then find_providers e PNone PNone else providers2)
      in if providers \<noteq> [] then
           st\<lparr>matched_providers :=
                map (\<lambda>p. \<lparr>pe_id = pr_id p, pe_name = pr_name p, pe_specialty = pr_specialty p,
                           pe_rating = pr_rating p\<rparr>) providers,
              current_state := SELECT_PROVIDER\<rparr>
         else st\<lparr>current_state := CONFIRM\<rparr>)"

definition handle_collection :: "env \<Rightarrow> ConversationState \<Rightarrow> string \<Rightarrow> ConversationState" where
  "handle_collection e st0 user_input =
     (let st = snd (merge_slots st0 (extract_slots e user_input))
      in if is_phase_complete st (current_state st) then
           (let next_state = get_next_state st;
                st' = st\<lparr>current_state := next_state\<rparr>
            in if next_state = VALIDATE_ADDRESS then do_address_validation e st'
               else if next_state = QUERY_PROVIDERS then handle_query_providers e st' user_input
               else st')
         else st)"

definition handle_validate_address :: "env \<Rightarrow> ConversationState \<Rightarrow> string \<Rightarrow> ConversationState" where
  "handle_validate_address e st0 user_input =
     (let intent = classify_intent e user_input
      in if (is_affirmative intent \<or> says ''yes'' user_input) \<and>
            opt_truthy (pending_address_suggestion st0) then
           (let suggested = the (pending_address_suggestion st0);
                d1 = (case parse_suggested_address suggested of
                        None \<Rightarrow> slots st0
                      | Some parsed \<Rightarrow> if parsed \<noteq> [] then dict_update (slots st0) parsed
                                      else slots st0)
            in st0\<lparr>slots := d1(''address_validated'' \<mapsto> PBool True),
                   pending_address_suggestion := None,
                   current_state := CONFIRM_ADDRESS\<rparr>)
         else
           (let st1 = snd (merge_slots st0 (extract_slots e user_input));
                st = st1\<lparr>pending_address_suggestion := None\<rparr>
            in if is_phase_complete st COLLECT_ADDRESS then do_address_validation e st else st))"

text \<open>
  \<^verbatim>\<open>advance_to_next_actionable_state\<close>: the body of its \<^verbatim>\<open>while True\<close> returns on
  every path, so the loop runs once.
\<close>

definition advance_to_next_actionable_state ::
  "env \<Rightarrow> ConversationState \<Rightarrow> string \<Rightarrow> ConversationState" where
  "advance_to_next_actionable_state e st user_input =
     (let current = current_state st
      in if current = COLLECT_PATIENT then
           (if is_phase_complete st current then st\<lparr>current_state := CONFIRM_PATIENT\<rparr> else st)
         else if current = COLLECT_INSURANCE then
           (if is_phase_complete st current then st\<lparr>current_state := CONFIRM_INSURANCE\<rparr> else st)
         else if current = COLLECT_ADDRESS then
           (if is_phase_complete st current
            then do_address_validation e (st\<lparr>current_state := VALIDATE_ADDRESS\<rparr>) else st)
         else if current = COLLECT_MEDICAL then
           (if is_phase_complete st current
            then handle_query_providers e (st\<lparr>current_state := QUERY_PROVIDERS\<rparr>) user_input
            else st)
         else st)"

definition handle_phase_confirm ::
  "env \<Rightarrow> ConversationState \<Rightarrow> string \<Rightarrow> State \<Rightarrow> State \<Rightarrow> ConversationState" where
  "handle_phase_confirm e st user_input phase next_state =
     (let intent = classify_intent e user_input
      in if is_affirmative intent \<or> says ''yes'' user_input then
           advance_to_next_actionable_state e (st\<lparr>current_state := next_state\<rparr>) user_input
         else if is_negative intent \<or> wants_to_update intent then
           snd (merge_slots st (extract_slots e user_input))
         else snd (merge_slots st (extract_slots e user_input)))"

definition handle_confirm_patient :: "env \<Rightarrow> ConversationState \<Rightarrow> string \<Rightarrow> ConversationState" where
  "handle_confirm_patient e st user_input =
     handle_phase_confirm e st user_input CONFIRM_PATIENT COLLECT_INSURANCE"

definition handle_confirm_insurance :: "env \<Rightarrow> ConversationState \<Rightarrow> string \<Rightarrow> ConversationState" where
  "handle_confirm_insurance e st user_input =
     handle_phase_confirm e st user_input CONFIRM_INSURANCE COLLECT_ADDRESS"

definition handle_confirm_address :: "env \<Rightarrow> ConversationState \<Rightarrow> string \<Rightarrow> ConversationState" where
  "handle_confirm_address e st user_input =
     handle_phase_confirm e st user_input CONFIRM_ADDRESS COLLECT_MEDICAL"

text \<open>
  \<^verbatim>\<open>handle_confirm\<close>: on an affirmation \<^verbatim>\<open>save_patient_data\<close> writes to the database
  and the phase becomes \<^verbatim>\<open>END\<close>.
\<close>

definition handle_confirm :: "env \<Rightarrow> ConversationState \<Rightarrow> string \<Rightarrow> ConversationState" where
  "handle_confirm e st user_input =
     (let intent = classify_intent e user_input
      in if is_affirmative intent \<or> says ''yes'' user_input then st\<lparr>current_state := END\<rparr>
         else if is_negative intent then st
         else snd (merge_slots st (extract_slots e user_input)))"

text \<open>
  \<^verbatim>\<open>handle_select_provider\<close> and \<^verbatim>\<open>handle_select_time\<close>, first as functions of the
  index that \<^verbatim>\<open>interpret_selection\<close> returned.
\<close>

definition select_provider_at :: "env \<Rightarrow> ConversationState \<Rightarrow> int option \<Rightarrow> ConversationState" where
  "select_provider_at e st selected_idx =
     (case selected_idx of
        None \<Rightarrow> st
      | Some i \<Rightarrow>
          if 0 \<le> i \<and> i < int (length (matched_providers st)) then
            (let provider = matched_providers st ! nat i;
                 st1 = st\<lparr>selected_provider_id := Some (pe_id provider),
                          selected_provider_name := Some (pe_name provider),
                          available_slots :=
                            map (\<lambda>a. \<lparr>se_id = a_id a, se_date = a_date a, se_time = a_time a\<rparr>)
                              (get_available_slots e (pe_id provider))\<rparr>
             in if available_slots st1 \<noteq> [] then st1\<lparr>current_state := SELECT_TIME\<rparr> else st1)
          else st)"

definition handle_select_provider :: "env \<Rightarrow> ConversationState \<Rightarrow> string \<Rightarrow> ConversationState" where
  "handle_select_provider e st user_input =
     select_provider_at e st
       (interpret_selection (selection_reply e user_input) (matched_providers st))"

definition select_time_at :: "ConversationState \<Rightarrow> int option \<Rightarrow> ConversationState" where
  "select_time_at st selected_idx =
     (case selected_idx of
        None \<Rightarrow> st
      | Some i \<Rightarrow>
          if 0 \<le> i \<and> i < int (length (available_slots st)) then
            (let slot = available_slots st ! nat i
             in st\<lparr>selected_appointment_id := Some (se_id slot),
                   selected_date := Some (se_date slot),
                   selected_time := Some (se_time slot),
                   current_state := CONFIRM\<rparr>)
          else st)"

definition handle_select_time :: "env \<Rightarrow> ConversationState \<Rightarrow> string \<Rightarrow> ConversationState" where
  "handle_select_time e st user_input =
     select_time_at st (interpret_selection (selection_reply e user_input) (available_slots st))"

text \<open>\<^verbatim>\<open>process_input\<close> with the \<^verbatim>\<open>STATE_HANDLERS\<close> table; \<^verbatim>\<open>END\<close> has no handler.\<close>

definition process_input :: "env \<Rightarrow> ConversationState \<Rightarrow> string \<Rightarrow> ConversationState" where
  "process_input e st user_input =
     (case current_state st of
        GREET \<Rightarrow> handle_greet e st user_input
      | CHECK_PATIENT \<Rightarrow> handle_check_patient e st user_input
      | VERIFY_DOB \<Rightarrow> handle_verify_dob e st user_input
      | CONFIRM_RETURNING \<Rightarrow> handle_confirm_returning e st user_input
      | COLLECT_PATIENT \<Rightarrow> handle_collection e st user_input
      | CONFIRM_PATIENT \<Rightarrow> handle_confirm_patient e st user_input
      | COLLECT_INSURANCE \<Rightarrow> handle_collection e st user_input
      | CONFIRM_INSURANCE \<Rightarrow> handle_confirm_insurance e st user_input
      | COLLECT_ADDRESS \<Rightarrow> handle_collection e st user_input
      | VALIDATE_ADDRESS \<Rightarrow> handle_validate_address e st user_input
      | CONFIRM_ADDRESS \<Rightarrow> handle_confirm_address e st user_input
      | COLLECT_MEDICAL \<Rightarrow> handle_collection e st user_input
      | QUERY_PROVIDERS \<Rightarrow> handle_query_providers e st user_input
      | SELECT_PROVIDER \<Rightarrow> handle_select_provider e st user_input
      | SELECT_TIME \<Rightarrow> handle_select_time e st user_input
      | CONFIRM \<Rightarrow> handle_confirm e st user_input
      | END \<Rightarrow> st)"

section \<open>Notions and sample data used in the statements\<close>

text \<open>A session in which the name and the date of birth have been given.\<close>

definition jane :: ConversationState where
  "jane = initial_state\<lparr>slots := (slots initial_state)
            (''first_name'' \<mapsto> PStr ''Jane'', ''last_name'' \<mapsto> PStr ''Smith'',
             ''date_of_birth'' \<mapsto> PStr ''1988-05-20'')\<rparr>"

text \<open>The payload of the registration scenario.\<close>

definition jane_payload :: "(string \<times> pyval) list" where
  "jane_payload =
     [(''first_name'', PStr ''Jane''), (''last_name'', PStr ''Smith''),
      (''date_of_birth'', PStr ''1988-05-20''), (''phone'', PStr ''5559876543'')]"

text \<open>The validator rejects the address held in the slots.\<close>

definition validation_fails :: "env \<Rightarrow> ConversationState \<Rightarrow> bool" where
  "validation_fails e st =
     (\<not> is_valid (validate_address e (slot_get (slots st) ''address_line1'')
         (slot_get (slots st) ''city'') (slot_get (slots st) ''state'')
         (slot_get (slots st) ''zip_code'') (slot_get (slots st) ''address_line2'')))"

text \<open>Collaborators that find nothing, reject every address and answer 5 to a selection.\<close>

definition failing_env :: env where
  "failing_env =
     \<lparr> extract_slots = (\<lambda>u. []),
       classify_intent = (\<lambda>u. \<lparr>is_affirmative = False, is_negative = False,
                                 wants_to_update = False, field_to_update = None,
                                 is_greeting = False\<rparr>),
       validate_address = (\<lambda>l1 c s z l2. \<lparr>is_valid = False, input_address = ''1 Nowhere'',
                                            suggested_address = None,
                                            corrected_components = None\<rparr>),
       find_existing_patient = (\<lambda>ph em fn ln dob. None),
       find_patients_by_name = (\<lambda>fn ln. []),
       find_providers = (\<lambda>ins cond. []),
       get_available_slots = (\<lambda>pid. []),
       selection_reply = (\<lambda>u. ''5'') \<rparr>"

text \<open>A session that is choosing between two providers.\<close>

definition two_providers :: ConversationState where
  "two_providers = initial_state
     \<lparr>current_state := SELECT_PROVIDER,
      matched_providers :=
        [\<lparr>pe_id = ''prov-1'', pe_name = ''Dr. Adams'', pe_specialty = Some ''Orthopedics'',
          pe_rating = 480\<rparr>,
         \<lparr>pe_id = ''prov-2'', pe_name = ''Dr. Baker'', pe_specialty = None, pe_rating = 450\<rparr>]\<rparr>"

text \<open>What the selection handlers treat as no selection: no index, or one out of range.\<close>

definition unresolved :: "int option \<Rightarrow> nat \<Rightarrow> bool" where
  "unresolved idx n = (case idx of None \<Rightarrow> True | Some i \<Rightarrow> i < 0 \<or> int n \<le> i)"

text \<open>
  The guard of the reset in \<^verbatim>\<open>handle_confirm_returning\<close>: the merge of this turn
  changed one of the four address fields.
\<close>

definition address_changed :: "env \<Rightarrow> ConversationState \<Rightarrow> string \<Rightarrow> bool" where
  "address_changed e st user_input =
     (set address_fields \<inter> set (fst (merge_slots st (extract_slots e user_input))) \<noteq> {})"

text \<open>The comma-separated parts that \<^verbatim>\<open>parse_suggested_address\<close> works on.\<close>

definition comma_parts :: "string \<Rightarrow> string list" where
  "comma_parts s = map strip (split_on CHR '','' (strip_country (strip s)))"









text \<open>The phases that come before any address validation.\<close>

definition before_validation :: "State \<Rightarrow> bool" where
  "before_validation phase =
     (phase = GREET \<or> phase = CHECK_PATIENT \<or> phase = VERIFY_DOB \<or> phase = CONFIRM_RETURNING)"





text \<open>A database with two patients, no visit, a taken slot and a free one.\<close>

definition booked_table :: "Appointment list" where
  "booked_table =
     [\<lparr>a_id = ''slot-already-booked'', a_provider_id = ''prov-1'', a_date = ''2030-01-02'',
       a_time = ''15:30'', a_status = Some ''booked'', a_patient_id = Some ''pat-1'',
       a_visit_id = None, a_reason = None, a_notes = None, a_booked_at = None\<rparr>,
      \<lparr>a_id = ''slot-free'', a_provider_id = ''prov-1'', a_date = ''2030-01-02'',
       a_time = ''16:00'', a_status = Some ''available'', a_patient_id = None,
       a_visit_id = None, a_reason = None, a_notes = None, a_booked_at = None\<rparr>]"

definition booked_db :: database where
  "booked_db = \<lparr>patient_ids = [''pat-1'', ''pat-2''], visit_ids = [],
                 appointments = booked_table\<rparr>"

section \<open>Properties of the completion check and of merge\<close>

lemma missing_loop_filter:
  "missing_loop d req = filter (\<lambda>slot. \<not> is_valid_slot slot (slot_get d slot)) req"
  by (induction req) (auto simp: is_valid_slot_def Let_def)

lemma jane_slots:
  "slot_get (slots jane) ''first_name'' = PStr ''Jane''"
  "slot_get (slots jane) ''last_name'' = PStr ''Smith''"
  "slot_get (slots jane) ''date_of_birth'' = PStr ''1988-05-20''"
  "slot_get (slots jane) ''phone'' = PNone"
  by (simp_all add: jane_def initial_state_def default_slots_def slot_get_def)

text \<open>
  Claim C1. For each of the four collection phases, \<^verbatim>\<open>get_missing_slots\<close> is empty
  exactly when \<^verbatim>\<open>is_phase_complete\<close> holds, the list is a subsequence of the phase's
  required names in table order, and a name is listed exactly when its slot is absent
  or fails \<^verbatim>\<open>_is_valid_slot\<close>.
\<close>

theorem missing_empty_iff_complete:
  assumes "phase \<in> {COLLECT_PATIENT, COLLECT_INSURANCE, COLLECT_ADDRESS, COLLECT_MEDICAL}"
  shows "\<exists>req. PHASE_REQUIREMENTS phase = Some req \<and>
           (get_missing_slots st phase = [] \<longleftrightarrow> is_phase_complete st phase) \<and>
           subseq (get_missing_slots st phase) req \<and>
           get_missing_slots st phase =
             filter (\<lambda>slot. slot_get (slots st) slot = PNone \<or>
                            \<not> is_valid_slot slot (slot_get (slots st) slot)) req"
proof -
  from assms obtain req where req: "PHASE_REQUIREMENTS phase = Some req"
    by auto
  have same: "missing_loop d r =
      filter (\<lambda>slot. slot_get d slot = PNone \<or> \<not> is_valid_slot slot (slot_get d slot)) r" for d r
    by (induction r) (auto simp: is_valid_slot_def Let_def)
  have m: "get_missing_slots st phase =
      filter (\<lambda>slot. slot_get (slots st) slot = PNone \<or>
                     \<not> is_valid_slot slot (slot_get (slots st) slot)) req"
    by (simp add: get_missing_slots_def req same)
  have "subseq (get_missing_slots st phase) req"
    unfolding m by (rule subseq_filter_left)
  with req m show ?thesis
    by (simp add: is_phase_complete_def)
qed

theorem missing_empty_iff_complete_witness:
  "COLLECT_PATIENT \<in> {COLLECT_PATIENT, COLLECT_INSURANCE, COLLECT_ADDRESS, COLLECT_MEDICAL} \<and>
   get_missing_slots jane COLLECT_PATIENT = [''phone''] \<and>
   \<not> is_phase_complete jane COLLECT_PATIENT \<and>
   subseq (get_missing_slots jane COLLECT_PATIENT)
     [''first_name'', ''last_name'', ''date_of_birth'', ''phone'']"
proof -
  have ph: "COLLECT_PATIENT \<in> {COLLECT_PATIENT, COLLECT_INSURANCE, COLLECT_ADDRESS, COLLECT_MEDICAL}"
    by simp
  have m: "get_missing_slots jane COLLECT_PATIENT = [''phone'']"
    using missing_empty_iff_complete [OF ph, of jane]
    by (simp add: jane_slots is_valid_slot_def match_dob_def dob_shape_def is_digit_def)
  show ?thesis
    using missing_empty_iff_complete [OF ph, of jane] unfolding m by simp
qed


subsection \<open>Merge\<close>

lemma py_eq_refl: "py_eq v v"
  by (cases v) auto

lemma merge_loop_snd_Cons:
  "snd (merge_loop d ((k, v) # rest)) =
     (if v \<noteq> PNone \<and> d k \<noteq> None \<and> \<not> py_eq (slot_get d k) v
      then snd (merge_loop (d(k \<mapsto> v)) rest) else snd (merge_loop d rest))"
  by (simp split: prod.splits)

lemma merge_loop_fst_Cons:
  "fst (merge_loop d ((k, v) # rest)) =
     (if v \<noteq> PNone \<and> d k \<noteq> None \<and> \<not> py_eq (slot_get d k) v
      then k # fst (merge_loop (d(k \<mapsto> v)) rest) else fst (merge_loop d rest))"
  by (simp split: prod.splits)

lemma merge_loop_dom: "dom (snd (merge_loop d ex)) = dom d"
proof (induction ex arbitrary: d)
  case Nil
  then show ?case by simp
next
  case (Cons a ex)
  obtain k v where a: "a = (k, v)" by (cases a)
  show ?case unfolding a merge_loop_snd_Cons using Cons.IH
    by (auto split: if_splits)
qed

lemma merge_loop_other:
  "key \<notin> fst ` set ex \<Longrightarrow> snd (merge_loop d ex) key = d key"
proof (induction ex arbitrary: d)
  case Nil
  then show ?case by simp
next
  case (Cons a ex)
  obtain k v where a: "a = (k, v)" by (cases a)
  from Cons.prems have "key \<noteq> k" "key \<notin> fst ` set ex" by (auto simp: a)
  then show ?case unfolding a merge_loop_snd_Cons using Cons.IH by auto
qed

lemma merge_loop_settled:
  "distinct (map fst ex) \<Longrightarrow> (key, v) \<in> set ex \<Longrightarrow> v \<noteq> PNone \<Longrightarrow> d key \<noteq> None \<Longrightarrow>
   py_eq (slot_get (snd (merge_loop d ex)) key) v"
proof (induction ex arbitrary: d)
  case Nil
  then show ?case by simp
next
  case (Cons a ex)
  obtain k w where a: "a = (k, w)" by (cases a)
  show ?case
  proof (cases "(key, v) = (k, w)")
    case True
    with Cons.prems have notin: "key \<notin> fst ` set ex" by (auto simp: a)
    show ?thesis
      unfolding a merge_loop_snd_Cons
      using True Cons.prems(3,4) merge_loop_other [OF notin]
      by (auto simp: slot_get_def py_eq_refl)
  next
    case False
    with Cons.prems have mem: "(key, v) \<in> set ex" and dis: "distinct (map fst ex)"
      by (auto simp: a)
    show ?thesis
      unfolding a merge_loop_snd_Cons
      using Cons.IH [OF dis mem Cons.prems(3)] Cons.prems(4)
      by auto
  qed
qed

lemma merge_loop_noop:
  "list_all (\<lambda>(k, v). v = PNone \<or> d k = None \<or> py_eq (slot_get d k) v) ex \<Longrightarrow>
   merge_loop d ex = ([], d)"
  by (induction ex) auto

lemma merge_slots_fst: "fst (merge_slots st ex) = fst (merge_loop (slots st) ex)"
  by (simp add: merge_slots_def split: prod.splits)

lemma merge_slots_snd: "slots (snd (merge_slots st ex)) = snd (merge_loop (slots st) ex)"
  by (simp add: merge_slots_def split: prod.splits)

text \<open>
  Claim C2. Merging the same payload (a dictionary, so its keys are pairwise
  different) a second time right after the first reports no changed field.
\<close>

theorem merge_twice:
  assumes "distinct (map fst extracted)"
  shows "fst (merge_slots (snd (merge_slots st extracted)) extracted) = []"
proof -
  define d' where "d' = snd (merge_loop (slots st) extracted)"
  have settled: "py_eq (slot_get d' k) v"
    if kv: "(k, v) \<in> set extracted" and v: "v \<noteq> PNone" and k: "d' k \<noteq> None" for k v
  proof -
    have known: "slots st k \<noteq> None"
      using k merge_loop_dom [of "slots st" extracted] by (auto simp: d'_def dom_def)
    show ?thesis
      unfolding d'_def
      using merge_loop_settled [of extracted k v "slots st"] assms kv v known
      by simp
  qed
  have "list_all (\<lambda>(k, v). v = PNone \<or> d' k = None \<or> py_eq (slot_get d' k) v) extracted"
    unfolding list_all_iff using settled by fastforce
  then have "merge_loop d' extracted = ([], d')"
    using merge_loop_noop [of d' extracted] by simp
  then show ?thesis
    by (simp add: merge_slots_fst merge_slots_snd d'_def)
qed


theorem merge_twice_witness:
  "distinct (map fst jane_payload) \<and>
   fst (merge_slots initial_state jane_payload) =
     [''first_name'', ''last_name'', ''date_of_birth'', ''phone''] \<and>
   fst (merge_slots (snd (merge_slots initial_state jane_payload)) jane_payload) = []"
proof -
  have d: "distinct (map fst jane_payload)"
    by (simp add: jane_payload_def)
  have "fst (merge_slots initial_state jane_payload) =
     [''first_name'', ''last_name'', ''date_of_birth'', ''phone'']"
    by (simp add: merge_slots_fst jane_payload_def initial_state_def default_slots_def
        slot_get_def)
  with d merge_twice [OF d, of initial_state] show ?thesis by simp
qed

lemma merge_loop_changed:
  "distinct (map fst ex) \<Longrightarrow> (key, v) \<in> set ex \<Longrightarrow> v \<noteq> PNone \<Longrightarrow> d key = Some cur \<Longrightarrow>
   \<not> py_eq cur v \<Longrightarrow>
   key \<in> set (fst (merge_loop d ex)) \<and> snd (merge_loop d ex) key = Some v"
proof (induction ex arbitrary: d)
  case Nil
  then show ?case by simp
next
  case (Cons a ex)
  obtain k w where a: "a = (k, w)" by (cases a)
  show ?case
  proof (cases "(key, v) = (k, w)")
    case True
    with Cons.prems have notin: "key \<notin> fst ` set ex" by (auto simp: a)
    show ?thesis
      unfolding a merge_loop_snd_Cons merge_loop_fst_Cons
      using True Cons.prems(3,4,5) merge_loop_other [OF notin]
      by (auto simp: slot_get_def)
  next
    case False
    with Cons.prems have mem: "(key, v) \<in> set ex" and dis: "distinct (map fst ex)"
      by (auto simp: a)
    from Cons.prems(1) mem have ne: "key \<noteq> k" by (force simp: a)
    have d1: "(d(k \<mapsto> w)) key = Some cur" using ne Cons.prems(4) by simp
    have ih1: "key \<in> set (fst (merge_loop (d(k \<mapsto> w)) ex)) \<and>
               snd (merge_loop (d(k \<mapsto> w)) ex) key = Some v"
      using Cons.IH [of "d(k \<mapsto> w)"] dis mem Cons.prems(3,5) d1 by blast
    have ih2: "key \<in> set (fst (merge_loop d ex)) \<and> snd (merge_loop d ex) key = Some v"
      using Cons.IH [of d] dis mem Cons.prems(3,4,5) by blast
    show ?thesis
      unfolding a merge_loop_snd_Cons merge_loop_fst_Cons
      using ih1 ih2 by (simp del: fun_upd_apply)
  qed
qed

text \<open>
  Claim C10 as stated fails for a recognised slot that no phase requires: an empty
  \<^verbatim>\<open>email\<close> is stored and reported as changed, and no completion check lists it.
\<close>

theorem empty_string_changed_never_missing:
  "fst (merge_slots initial_state [(''email'', PStr [])]) = [''email''] \<and>
   slots (snd (merge_slots initial_state [(''email'', PStr [])])) ''email'' = Some (PStr []) \<and>
   ''email'' \<notin> set (get_missing_slots (snd (merge_slots initial_state [(''email'', PStr [])]))
      COLLECT_PATIENT) \<and>
   ''email'' \<notin> set (get_missing_slots (snd (merge_slots initial_state [(''email'', PStr [])]))
      COLLECT_INSURANCE) \<and>
   ''email'' \<notin> set (get_missing_slots (snd (merge_slots initial_state [(''email'', PStr [])]))
      COLLECT_ADDRESS) \<and>
   ''email'' \<notin> set (get_missing_slots (snd (merge_slots initial_state [(''email'', PStr [])]))
      COLLECT_MEDICAL)"
proof -
  have e: "slots initial_state ''email'' = Some PNone"
    by (simp add: initial_state_def default_slots_def)
  have c: "fst (merge_slots initial_state [(''email'', PStr [])]) = [''email'']"
    by (simp add: merge_slots_fst e slot_get_def)
  have s: "slots (snd (merge_slots initial_state [(''email'', PStr [])])) ''email'' =
      Some (PStr [])"
    by (simp add: merge_slots_snd e slot_get_def)
  have m: "''email'' \<notin> set (get_missing_slots st phase)" for st phase
    by (cases phase) (simp_all add: get_missing_slots_def missing_loop_filter)
  show ?thesis using c s m by simp
qed

text \<open>
  Claim C10, amended. When the payload maps a slot that a collection phase requires to
  the empty string and the stored value differs, merge stores the empty string and
  reports the slot as changed, while the completion check of that phase lists it as
  missing.
\<close>

theorem empty_string_changed_and_missing:
  assumes "distinct (map fst extracted)"
    and "(key, PStr []) \<in> set extracted"
    and "slots st key = Some cur" and "\<not> py_eq cur (PStr [])"
    and "PHASE_REQUIREMENTS phase = Some req" and "key \<in> set req"
  shows "key \<in> set (fst (merge_slots st extracted)) \<and>
         slots (snd (merge_slots st extracted)) key = Some (PStr []) \<and>
         key \<in> set (get_missing_slots (snd (merge_slots st extracted)) phase) \<and>
         \<not> is_phase_complete (snd (merge_slots st extracted)) phase"
proof -
  have ch: "key \<in> set (fst (merge_loop (slots st) extracted)) \<and>
            snd (merge_loop (slots st) extracted) key = Some (PStr [])"
    using merge_loop_changed [of extracted key "PStr []" "slots st" cur] assms by simp
  then have "slot_get (slots (snd (merge_slots st extracted))) key = PStr []"
    by (simp add: merge_slots_snd slot_get_def)
  then have "key \<in> set (get_missing_slots (snd (merge_slots st extracted)) phase)"
    using assms(5,6) by (simp add: get_missing_slots_def missing_loop_filter is_valid_slot_def)
  with ch show ?thesis
    by (auto simp: merge_slots_fst merge_slots_snd is_phase_complete_def)
qed

theorem empty_string_changed_and_missing_witness:
  "fst (merge_slots jane [(''first_name'', PStr [])]) = [''first_name''] \<and>
   slots (snd (merge_slots jane [(''first_name'', PStr [])])) ''first_name'' = Some (PStr []) \<and>
   ''first_name'' \<in> set (get_missing_slots (snd (merge_slots jane [(''first_name'', PStr [])]))
      COLLECT_PATIENT)"
proof -
  have cur: "slots jane ''first_name'' = Some (PStr ''Jane'')"
    by (simp add: jane_def)
  have "fst (merge_slots jane [(''first_name'', PStr [])]) = [''first_name'']"
    by (simp add: merge_slots_fst cur slot_get_def)
  then show ?thesis
    using empty_string_changed_and_missing [of "[(''first_name'', PStr [])]" "''first_name''"
        jane "PStr ''Jane''" COLLECT_PATIENT "[''first_name'', ''last_name'', ''date_of_birth'', ''phone'']"]
      cur
    by simp
qed


section \<open>Phone normalisation\<close>

lemma filter_digits_empty: "filter is_digit s = [] \<longleftrightarrow> list_all (\<lambda>c. \<not> is_digit c) s"
  by (induction s) auto

text \<open>
  Claim C9. Phone normalisation keeps exactly the digits of its input, in order; an
  11-digit result that starts with 1 loses that digit, any other result is kept as it
  is; an input without a digit (the empty one included) gives the absent value; and
  \<^verbatim>\<open>+1 (555) 987-6543\<close> becomes \<^verbatim>\<open>5559876543\<close>.
\<close>

theorem normalize_phone_digits:
  "normalize_phone None = None \<and>
   (normalize_phone (Some s) = None \<longleftrightarrow> list_all (\<lambda>c. \<not> is_digit c) s) \<and>
   (\<forall>r. normalize_phone (Some s) = Some r \<longrightarrow>
      list_all is_digit r \<and>
      r = (if length (filter is_digit s) = 11 \<and> hd (filter is_digit s) = CHR ''1''
           then tl (filter is_digit s) else filter is_digit s)) \<and>
   normalize_phone (Some ''+1 (555) 987-6543'') = Some ''5559876543''"
proof -
  define d where "d = filter is_digit s"
  have all: "list_all is_digit d" by (simp add: d_def list_all_iff)
  have tk: "take 1 d = ''1'' \<longleftrightarrow> d \<noteq> [] \<and> hd d = CHR ''1''"
    by (cases d) auto
  have np: "normalize_phone (Some s) =
      (if d = [] then None else if length d = 11 \<and> hd d = CHR ''1'' then Some (tl d) else Some d)"
    using tk by (cases "s = []") (auto simp: normalize_phone_def d_def Let_def drop_Suc)
  have tl_all: "list_all is_digit (tl d)"
    using all by (cases d) auto
  have scen: "normalize_phone (Some ''+1 (555) 987-6543'') = Some ''5559876543''"
    by (simp add: normalize_phone_def is_digit_def)
  have none: "normalize_phone None = None"
    by (simp add: normalize_phone_def)
  have a: "normalize_phone (Some s) = None \<longleftrightarrow> list_all (\<lambda>c. \<not> is_digit c) s"
    using filter_digits_empty [of s] by (simp add: np d_def)
  have b: "\<forall>r. normalize_phone (Some s) = Some r \<longrightarrow>
      list_all is_digit r \<and>
      r = (if length d = 11 \<and> hd d = CHR ''1'' then tl d else d)"
    using all tl_all by (auto simp: np)
  show ?thesis
    using none a b scen unfolding d_def by blast
qed

theorem normalize_phone_digits_witness:
  "normalize_phone (Some ''1-555-987-6543'') = Some ''5559876543'' \<and>
   normalize_phone (Some ''555-1234'') = Some ''5551234'' \<and>
   normalize_phone (Some ''n/a'') = None \<and>
   normalize_phone (Some []) = None"
  using normalize_phone_digits [of "''1-555-987-6543''"] normalize_phone_digits [of "''n/a''"]
    normalize_phone_digits [of "''555-1234''"] normalize_phone_digits [of "[]"]
  by (simp add: normalize_phone_def is_digit_def)


section \<open>Address validation retries\<close>

lemma do_address_validation_fail:
  assumes "validation_fails e st"
  shows "do_address_validation e st =
     (if 2 \<le> address_validation_attempts st + 1
      then st\<lparr>address_validation_attempts := address_validation_attempts st + 1,
              slots := (slots st)(''address_validated'' \<mapsto> PBool False),
              current_state := CONFIRM_ADDRESS\<rparr>
      else st\<lparr>address_validation_attempts := address_validation_attempts st + 1,
              pending_address_suggestion :=
                suggested_address (validate_address e (slot_get (slots st) ''address_line1'')
                  (slot_get (slots st) ''city'') (slot_get (slots st) ''state'')
                  (slot_get (slots st) ''zip_code'') (slot_get (slots st) ''address_line2'')),
              current_state := VALIDATE_ADDRESS\<rparr>)"
  using assms by (simp add: do_address_validation_def validation_fails_def Let_def)

text \<open>
  Claim C3. When \<^verbatim>\<open>do_address_validation\<close> runs, the validator rejects the address
  and the incremented counter is at least 2, the phase becomes \<^verbatim>\<open>CONFIRM_ADDRESS\<close> with
  \<^verbatim>\<open>address_validated\<close> false. So two failed attempts from a counter of 0, with the
  counter untouched in between, end in \<^verbatim>\<open>CONFIRM_ADDRESS\<close>: the first asks again
  (\<^verbatim>\<open>VALIDATE_ADDRESS\<close>), the second does not.
\<close>

theorem address_retry_bound:
  "(validation_fails e st \<and> 2 \<le> address_validation_attempts st + 1 \<longrightarrow>
      current_state (do_address_validation e st) = CONFIRM_ADDRESS \<and>
      slots (do_address_validation e st) ''address_validated'' = Some (PBool False)) \<and>
   (address_validation_attempts st = 0 \<and> validation_fails e st \<and>
    address_validation_attempts st' = address_validation_attempts (do_address_validation e st) \<and>
    validation_fails e' st' \<longrightarrow>
      current_state (do_address_validation e st) = VALIDATE_ADDRESS \<and>
      current_state (do_address_validation e' st') = CONFIRM_ADDRESS \<and>
      slots (do_address_validation e' st') ''address_validated'' = Some (PBool False) \<and>
      address_validation_attempts (do_address_validation e' st') = 2)"
proof -
  have one: "current_state (do_address_validation e st) = CONFIRM_ADDRESS \<and>
      slots (do_address_validation e st) ''address_validated'' = Some (PBool False)"
    if "validation_fails e st" and "2 \<le> address_validation_attempts st + 1" for e st
    using that by (simp add: do_address_validation_fail)
  have two: "current_state (do_address_validation e st) = VALIDATE_ADDRESS \<and>
      current_state (do_address_validation e' st') = CONFIRM_ADDRESS \<and>
      slots (do_address_validation e' st') ''address_validated'' = Some (PBool False) \<and>
      address_validation_attempts (do_address_validation e' st') = 2"
    if z: "address_validation_attempts st = 0" and f: "validation_fails e st"
      and a: "address_validation_attempts st' = address_validation_attempts (do_address_validation e st)"
      and f': "validation_fails e' st'"
  proof -
    have first: "address_validation_attempts (do_address_validation e st) = 1"
      "current_state (do_address_validation e st) = VALIDATE_ADDRESS"
      using z f by (simp_all add: do_address_validation_fail)
    with a have "address_validation_attempts st' = 1" by simp
    with f' first show ?thesis by (simp add: do_address_validation_fail)
  qed
  show ?thesis using one two by blast
qed

theorem address_retry_bound_witness:
  "validation_fails failing_env initial_state \<and>
   address_validation_attempts initial_state = 0 \<and>
   current_state (do_address_validation failing_env initial_state) = VALIDATE_ADDRESS \<and>
   validation_fails failing_env (do_address_validation failing_env initial_state) \<and>
   current_state (do_address_validation failing_env
      (do_address_validation failing_env initial_state)) = CONFIRM_ADDRESS \<and>
   slots (do_address_validation failing_env
      (do_address_validation failing_env initial_state)) ''address_validated'' =
     Some (PBool False)"
proof -
  have f: "validation_fails failing_env s" for s
    by (simp add: validation_fails_def failing_env_def)
  have z: "address_validation_attempts initial_state = 0"
    by (simp add: initial_state_def)
  show ?thesis
    using address_retry_bound [of failing_env initial_state
        "do_address_validation failing_env initial_state" failing_env] f z
    by simp
qed


section \<open>Selections\<close>

lemma first_number_5: "first_number (strip ''5'') = ''5''"
  by (simp add: first_number_def strip_def is_space_def is_digit_def)

lemma interpret_5_of_2: "length options = 2 \<Longrightarrow> interpret_selection ''5'' options = None"
  by (auto simp: interpret_selection_def first_number_5 int_of_digits_def digit_value_def Let_def)

text \<open>
  Claim C8. In \<^verbatim>\<open>SELECT_PROVIDER\<close> and \<^verbatim>\<open>SELECT_TIME\<close> an unresolved selection and
  an index outside the option list leave the whole conversation state, the phase
  included, as it was; a reply of 5 against two options is interpreted as unresolved.
\<close>

theorem out_of_range_selection_keeps_state:
  "(unresolved idx (length (matched_providers st)) \<longrightarrow> select_provider_at e st idx = st) \<and>
   (unresolved idx (length (available_slots st)) \<longrightarrow> select_time_at st idx = st) \<and>
   (length options = 2 \<longrightarrow> interpret_selection ''5'' options = None) \<and>
   (selection_reply e u = ''5'' \<and> length (matched_providers st) = 2 \<longrightarrow>
      handle_select_provider e st u = st) \<and>
   (selection_reply e u = ''5'' \<and> length (available_slots st) = 2 \<longrightarrow>
      handle_select_time e st u = st)"
proof -
  have p: "select_provider_at e st idx = st" if "unresolved idx (length (matched_providers st))"
    using that by (auto simp: select_provider_at_def unresolved_def split: option.splits)
  have t: "select_time_at st idx = st" if "unresolved idx (length (available_slots st))"
    using that by (auto simp: select_time_at_def unresolved_def split: option.splits)
  have hp: "handle_select_provider e st u = st"
    if "selection_reply e u = ''5''" "length (matched_providers st) = 2"
    using that by (simp add: handle_select_provider_def interpret_5_of_2 select_provider_at_def)
  have ht: "handle_select_time e st u = st"
    if "selection_reply e u = ''5''" "length (available_slots st) = 2"
    using that by (simp add: handle_select_time_def interpret_5_of_2 select_time_at_def)
  show ?thesis using p t hp ht interpret_5_of_2 [of options] by blast
qed

theorem out_of_range_selection_keeps_state_witness:
  "unresolved (Some 4) (length (matched_providers two_providers)) \<and>
   select_provider_at failing_env two_providers (Some 4) = two_providers \<and>
   selection_reply failing_env ''the fifth one'' = ''5'' \<and>
   length (matched_providers two_providers) = 2 \<and>
   process_input failing_env two_providers ''the fifth one'' = two_providers \<and>
   current_state (process_input failing_env two_providers ''the fifth one'') = SELECT_PROVIDER"
proof -
  have l: "length (matched_providers two_providers) = 2"
    by (simp add: two_providers_def)
  have u: "unresolved (Some 4) (length (matched_providers two_providers))"
    by (simp add: l unresolved_def)
  have r: "selection_reply failing_env ''the fifth one'' = ''5''"
    by (simp add: failing_env_def)
  have c: "current_state two_providers = SELECT_PROVIDER"
    by (simp add: two_providers_def)
  show ?thesis
    using out_of_range_selection_keeps_state [of "Some 4" two_providers failing_env
        "[]::nat list" "''the fifth one''"] l u r c
    by (simp add: process_input_def)
qed

section \<open>Booking\<close>

text \<open>
  Claim C7 as stated fails: booking a slot that exists but is taken and booking an
  unknown id give the same result, \<^verbatim>\<open>None\<close> with the database unchanged.
\<close>

theorem booking_failures_not_distinguished:
  "get_appointment_by_id (appointments booked_db) ''slot-already-booked'' \<noteq> None \<and>
   get_appointment_by_id (appointments booked_db) ''nonexistent-slot-id'' = None \<and>
   book_appointment booked_db ''slot-already-booked'' ''pat-2'' None None ''2030-01-01T09:00:00''
     = Inr (None, booked_db) \<and>
   book_appointment booked_db ''nonexistent-slot-id'' ''pat-2'' None None ''2030-01-01T09:00:00''
     = Inr (None, booked_db)"
  by (simp add: booked_db_def booked_table_def get_appointment_by_id_def book_appointment_def
      bookable_def)

lemma find_map_upd:
  "distinct (map a_id tbl) \<Longrightarrow> r \<in> set tbl \<Longrightarrow> (\<And>x. a_id (f x) = a_id x) \<Longrightarrow>
   find (\<lambda>x. a_id x = a_id r) (map (\<lambda>x. if P x then f x else x) tbl) =
     Some (if P r then f r else r)"
proof (induction tbl)
  case Nil
  then show ?case by simp
next
  case (Cons x tbl)
  show ?case
  proof (cases "x = r")
    case True
    with Cons.prems show ?thesis by simp
  next
    case False
    with Cons.prems have "r \<in> set tbl" "a_id x \<noteq> a_id r" by force+
    with Cons show ?thesis by auto
  qed
qed

lemma bookable_at_most_one:
  "distinct (map a_id tbl) \<Longrightarrow> length (filter (bookable aid) tbl) \<le> 1"
proof (induction tbl)
  case Nil
  then show ?case by simp
next
  case (Cons x tbl)
  have "filter (bookable aid) tbl = []" if "bookable aid x"
  proof -
    have "\<not> bookable aid y" if "y \<in> set tbl" for y
    proof
      assume "bookable aid y"
      with \<open>bookable aid x\<close> have "a_id y = a_id x" by (simp add: bookable_def)
      with that have "a_id x \<in> a_id ` set tbl" by (metis imageI)
      with Cons.prems show False by simp
    qed
    then show ?thesis by (simp add: filter_empty_conv)
  qed
  with Cons show ?case by auto
qed

text \<open>
  Claim C7, amended. With ids unique (the primary key), \<^verbatim>\<open>book_appointment\<close> is one
  conditional update and at most one row matches it. When a row with the id is unbooked
  and available and the patient id and the visit id exist, the row is marked booked and
  returned. When such a row matches but the patient id or the visit id is unknown, the
  update fails with an integrity error. When no row matches, whether the id is unknown
  or the slot is taken, the result is \<^verbatim>\<open>None\<close> and the database is unchanged.
\<close>

theorem book_appointment_single_update:
  assumes "distinct (map a_id (appointments db))"
  shows "(\<forall>r \<in> set (appointments db).
            bookable aid r \<and> references_exist db pid visit \<longrightarrow>
            book_appointment db aid pid visit reason now =
              Inr (Some (r\<lparr>a_patient_id := Some pid, a_visit_id := visit,
                            a_status := Some ''booked'', a_reason := reason,
                            a_booked_at := Some now\<rparr>),
                   db\<lparr>appointments :=
                        map (\<lambda>x. if bookable aid x
                                  then x\<lparr>a_patient_id := Some pid, a_visit_id := visit,
                                         a_status := Some ''booked'', a_reason := reason,
                                         a_booked_at := Some now\<rparr>
                                  else x) (appointments db)\<rparr>)) \<and>
         (\<forall>r \<in> set (appointments db).
            bookable aid r \<and> \<not> references_exist db pid visit \<longrightarrow>
            book_appointment db aid pid visit reason now = Inl IntegrityError) \<and>
         (list_all (\<lambda>r. \<not> bookable aid r) (appointments db) \<longrightarrow>
            book_appointment db aid pid visit reason now = Inr (None, db)) \<and>
         length (filter (bookable aid) (appointments db)) \<le> 1"
proof -
  let ?tbl = "appointments db"
  let ?f = "\<lambda>x. x\<lparr>a_patient_id := Some pid, a_visit_id := visit, a_status := Some ''booked'',
                   a_reason := reason, a_booked_at := Some now\<rparr>"
  have none: "book_appointment db aid pid visit reason now = Inr (None, db)"
    if "list_all (\<lambda>r. \<not> bookable aid r) ?tbl"
  proof -
    from that have "filter (bookable aid) ?tbl = []"
      by (simp add: list_all_iff filter_empty_conv)
    then show ?thesis by (simp add: book_appointment_def)
  qed
  have some: "book_appointment db aid pid visit reason now =
      Inr (Some (?f r), db\<lparr>appointments := map (\<lambda>x. if bookable aid x then ?f x else x) ?tbl\<rparr>)"
    if r: "r \<in> set ?tbl" and b: "bookable aid r" and fk: "references_exist db pid visit" for r
  proof -
    from r b have ne: "filter (bookable aid) ?tbl \<noteq> []"
      by (auto simp: filter_empty_conv)
    have id: "a_id r = aid" using b by (simp add: bookable_def)
    have "find (\<lambda>x. a_id x = a_id r) (map (\<lambda>x. if bookable aid x then ?f x else x) ?tbl) =
        Some (if bookable aid r then ?f r else r)"
      using assms r by (rule find_map_upd) simp
    with ne b id fk show ?thesis
      by (simp add: book_appointment_def get_appointment_by_id_def Let_def)
  qed
  have err: "book_appointment db aid pid visit reason now = Inl IntegrityError"
    if r: "r \<in> set ?tbl" and b: "bookable aid r" and fk: "\<not> references_exist db pid visit" for r
  proof -
    from r b have ne: "filter (bookable aid) ?tbl \<noteq> []"
      by (auto simp: filter_empty_conv)
    with fk show ?thesis by (simp add: book_appointment_def Let_def)
  qed
  have le: "length (filter (bookable aid) ?tbl) \<le> 1"
    using assms by (rule bookable_at_most_one)
  show ?thesis using none some err le by blast
qed

theorem book_appointment_single_update_witness:
  "distinct (map a_id (appointments booked_db)) \<and>
   book_appointment booked_db ''slot-free'' ''pat-2'' None (Some ''back pain'')
       ''2030-01-01T09:00:00'' =
     Inr (Some \<lparr>a_id = ''slot-free'', a_provider_id = ''prov-1'', a_date = ''2030-01-02'',
            a_time = ''16:00'', a_status = Some ''booked'', a_patient_id = Some ''pat-2'',
            a_visit_id = None, a_reason = Some ''back pain'', a_notes = None,
            a_booked_at = Some ''2030-01-01T09:00:00''\<rparr>,
          booked_db\<lparr>appointments :=
            [\<lparr>a_id = ''slot-already-booked'', a_provider_id = ''prov-1'',
              a_date = ''2030-01-02'', a_time = ''15:30'', a_status = Some ''booked'',
              a_patient_id = Some ''pat-1'', a_visit_id = None, a_reason = None,
              a_notes = None, a_booked_at = None\<rparr>,
             \<lparr>a_id = ''slot-free'', a_provider_id = ''prov-1'', a_date = ''2030-01-02'',
              a_time = ''16:00'', a_status = Some ''booked'', a_patient_id = Some ''pat-2'',
              a_visit_id = None, a_reason = Some ''back pain'', a_notes = None,
              a_booked_at = Some ''2030-01-01T09:00:00''\<rparr>]\<rparr>) \<and>
   book_appointment booked_db ''slot-free'' ''pat-9'' None None ''2030-01-01T09:00:00'' =
     Inl IntegrityError \<and>
   book_appointment booked_db ''slot-free'' ''pat-2'' (Some ''visit-9'') None
       ''2030-01-01T09:00:00'' = Inl IntegrityError \<and>
   book_appointment booked_db ''slot-already-booked'' ''pat-9'' None None
       ''2030-01-01T09:00:00'' = Inr (None, booked_db)"
proof -
  have d: "distinct (map a_id (appointments booked_db))"
    by (simp add: booked_db_def booked_table_def)
  show ?thesis
    using book_appointment_single_update [OF d, of "''slot-free''" "''pat-2''" None
        "Some ''back pain''" "''2030-01-01T09:00:00''"] d
    by (simp add: booked_db_def booked_table_def get_appointment_by_id_def
        book_appointment_def bookable_def references_exist_def)
qed

section \<open>The fresh slot record and the slots a session has not supplied\<close>





lemma phase_merge [simp]: "current_state (snd (merge_slots st x)) = current_state st"
  by (simp add: merge_slots_def split: prod.splits)




lemma slots_hqp [simp]: "slots (handle_query_providers e st u) = slots st"
  by (simp add: handle_query_providers_def Let_def)



lemma pending_merge [simp]:
  "pending_name_matches (snd (merge_slots st x)) = pending_name_matches st"
  by (simp add: merge_slots_def split: prod.splits)











lemma slots_select_provider [simp]: "slots (handle_select_provider e st u) = slots st"
  by (simp add: handle_select_provider_def select_provider_at_def Let_def split: option.splits)

lemma slots_select_time [simp]: "slots (handle_select_time e st u) = slots st"
  by (simp add: handle_select_time_def select_time_at_def Let_def split: option.splits)





section \<open>The validation attempt counter\<close>

lemma attempts_merge [simp]:
  "address_validation_attempts (snd (merge_slots st x)) = address_validation_attempts st"
  by (simp add: merge_slots_def split: prod.splits)

lemma attempts_dav [simp]:
  "address_validation_attempts (do_address_validation e st) = address_validation_attempts st + 1"
  by (simp add: do_address_validation_def Let_def)

lemma attempts_hqp [simp]:
  "address_validation_attempts (handle_query_providers e st u) = address_validation_attempts st"
  by (simp add: handle_query_providers_def Let_def)

lemma attempts_srp [simp]:
  "address_validation_attempts (set_returning_patient st p) = address_validation_attempts st"
  by (simp add: set_returning_patient_def)












lemma before_validation_simps [simp]:
  "before_validation GREET" "before_validation CHECK_PATIENT" "before_validation VERIFY_DOB"
  "before_validation CONFIRM_RETURNING" "\<not> before_validation COLLECT_PATIENT"
  "\<not> before_validation CONFIRM_PATIENT" "\<not> before_validation COLLECT_INSURANCE"
  "\<not> before_validation CONFIRM_INSURANCE" "\<not> before_validation COLLECT_ADDRESS"
  "\<not> before_validation VALIDATE_ADDRESS" "\<not> before_validation CONFIRM_ADDRESS"
  "\<not> before_validation COLLECT_MEDICAL" "\<not> before_validation QUERY_PROVIDERS"
  "\<not> before_validation SELECT_PROVIDER" "\<not> before_validation SELECT_TIME"
  "\<not> before_validation CONFIRM" "\<not> before_validation END"
  by (simp_all add: before_validation_def)

lemma phase_dav:
  "current_state (do_address_validation e st) = CONFIRM_ADDRESS \<or>
   current_state (do_address_validation e st) = VALIDATE_ADDRESS"
  by (simp add: do_address_validation_def Let_def)

lemma phase_hqp:
  "current_state (handle_query_providers e st u) = SELECT_PROVIDER \<or>
   current_state (handle_query_providers e st u) = CONFIRM"
  by (simp add: handle_query_providers_def Let_def)

lemma not_before_dav [simp]: "\<not> before_validation (current_state (do_address_validation e st))"
  using phase_dav [of e st] by (auto simp: before_validation_def)

lemma not_before_hqp [simp]: "\<not> before_validation (current_state (handle_query_providers e st u))"
  using phase_hqp [of e st u] by (auto simp: before_validation_def)

lemma phase_srp [simp]: "current_state (set_returning_patient st p) = CONFIRM_RETURNING"
  by (simp add: set_returning_patient_def)



















section \<open>Reverse parsing of a suggested address\<close>

lemma dropWhile_hd: "xs \<noteq> [] \<Longrightarrow> \<not> P (hd xs) \<Longrightarrow> dropWhile P xs = xs"
  by (cases xs) auto

lemma strip_idem: "strip (strip s) = strip s"
proof -
  define a where "a = dropWhile is_space s"
  define b where "b = rev (dropWhile is_space (rev a))"
  have b: "strip s = b" by (simp add: strip_def a_def b_def)
  have front: "dropWhile is_space b = b"
  proof (cases "a = []")
    case True
    then show ?thesis by (simp add: b_def)
  next
    case False
    then have h: "\<not> is_space (hd a)"
      unfolding a_def by (metis hd_dropWhile)
    from False obtain x xs where a: "a = x # xs" by (cases a) auto
    with h have x: "\<not> is_space x" by simp
    have "dropWhile is_space (rev xs @ [x]) = dropWhile is_space (rev xs) @ [x]"
      using x by (induction "rev xs") (auto simp: dropWhile_append)
    then have "b = x # rev (dropWhile is_space (rev xs))"
      by (simp add: b_def a)
    with x show ?thesis by simp
  qed
  have rear: "dropWhile is_space (rev b) = rev b"
    by (simp add: b_def)
  show ?thesis
    unfolding b by (simp add: strip_def front rear)
qed

text \<open>
  Claim C6 as stated fails: with four parts the last one, \<^verbatim>\<open>IL 62704\<close>, matches the
  state and ZIP pattern, yet the parser reads the third part and returns \<^verbatim>\<open>None\<close>.
\<close>

theorem last_part_matches_but_unused:
  "comma_parts ''12 Oak Ave, Suite 5, Springfield, IL 62704'' =
     [''12 Oak Ave'', ''Suite 5'', ''Springfield'', ''IL 62704''] \<and>
   match_state_zip (last (comma_parts ''12 Oak Ave, Suite 5, Springfield, IL 62704'')) =
     Some (''IL'', ''62704'') \<and>
   parse_suggested_address ''12 Oak Ave, Suite 5, Springfield, IL 62704'' = None"
proof -
  have c: "comma_parts ''12 Oak Ave, Suite 5, Springfield, IL 62704'' =
     [''12 Oak Ave'', ''Suite 5'', ''Springfield'', ''IL 62704'']"
    by code_simp
  have m: "match_state_zip ''IL 62704'' = Some (''IL'', ''62704'')"
    by code_simp
  have p: "parse_suggested_address ''12 Oak Ave, Suite 5, Springfield, IL 62704'' = None"
    by code_simp
  show ?thesis by (simp add: c m p)
qed

text \<open>
  Claim C6, amended. After the country name is cut off and the string is split on
  commas, fewer than three parts give \<^verbatim>\<open>None\<close>; otherwise the state and the ZIP code
  come from the third part (the last one when exactly three parts remain): from the
  pattern of two capitals, white space and five digits when it matches, else from a
  bare two-letter state, else the result is \<^verbatim>\<open>None\<close>.
\<close>

theorem parse_uses_third_part:
  "parse_suggested_address s =
     (if length (comma_parts s) < 3 then None
      else (case match_state_zip (comma_parts s ! 2) of
              Some (st, zp) \<Rightarrow>
                Some [(''address_line1'', PStr (comma_parts s ! 0)),
                      (''city'', PStr (comma_parts s ! 1)),
                      (''state'', PStr st), (''zip_code'', PStr zp)]
            | None \<Rightarrow>
                if length (comma_parts s ! 2) = 2 \<and> isalpha (comma_parts s ! 2)
                then Some [(''address_line1'', PStr (comma_parts s ! 0)),
                           (''city'', PStr (comma_parts s ! 1)),
                           (''state'', PStr (upper (comma_parts s ! 2)))]
                else None)) \<and>
   (length (comma_parts s) = 3 \<longrightarrow> comma_parts s ! 2 = last (comma_parts s))"
proof -
  have st: "strip (comma_parts s ! 2) = comma_parts s ! 2" if "\<not> length (comma_parts s) < 3"
    using that by (simp add: comma_parts_def strip_idem)
  have p: "map strip (split_on CHR '','' (strip_country (strip s))) = comma_parts s"
    by (simp add: comma_parts_def)
  have l: "comma_parts s ! 2 = last (comma_parts s)" if "length (comma_parts s) = 3"
    using that by (auto simp: length_Suc_conv numeral_3_eq_3)
  have "parse_suggested_address s =
     (if length (comma_parts s) < 3 then None
      else (case match_state_zip (comma_parts s ! 2) of
              Some (st, zp) \<Rightarrow>
                Some [(''address_line1'', PStr (comma_parts s ! 0)),
                      (''city'', PStr (comma_parts s ! 1)),
                      (''state'', PStr st), (''zip_code'', PStr zp)]
            | None \<Rightarrow>
                if length (comma_parts s ! 2) = 2 \<and> isalpha (comma_parts s ! 2)
                then Some [(''address_line1'', PStr (comma_parts s ! 0)),
                           (''city'', PStr (comma_parts s ! 1)),
                           (''state'', PStr (upper (comma_parts s ! 2)))]
                else None))"
  proof (cases "length (comma_parts s) < 3")
    case True
    then show ?thesis
      unfolding parse_suggested_address_def Let_def p by simp
  next
    case False
    show ?thesis
    proof (cases "match_state_zip (comma_parts s ! 2)")
      case None
      with False st show ?thesis
        unfolding parse_suggested_address_def Let_def p by simp
    next
      case (Some g)
      obtain g1 g2 where g: "g = (g1, g2)" by (cases g)
      with Some False st show ?thesis
        unfolding parse_suggested_address_def Let_def p by simp
    qed
  qed
  with l show ?thesis by blast
qed


theorem parse_uses_third_part_witness:
  "length (comma_parts ''12 Oak Ave, Springfield, IL 62704, USA'') = 3 \<and>
   last (comma_parts ''12 Oak Ave, Springfield, IL 62704, USA'') = ''IL 62704'' \<and>
   parse_suggested_address ''12 Oak Ave, Springfield, IL 62704, USA'' =
     Some [(''address_line1'', PStr ''12 Oak Ave''), (''city'', PStr ''Springfield''),
           (''state'', PStr ''IL''), (''zip_code'', PStr ''62704'')]"
proof -
  have c: "comma_parts ''12 Oak Ave, Springfield, IL 62704, USA'' =
     [''12 Oak Ave'', ''Springfield'', ''IL 62704'']"
    by code_simp
  have m: "match_state_zip ''IL 62704'' = Some (''IL'', ''62704'')"
    by code_simp
  show ?thesis
    using parse_uses_third_part [of "''12 Oak Ave, Springfield, IL 62704, USA''"]
    unfolding c by (simp add: m)
qed

end
